theory Spec2Isabelle
  imports Main "HOL-Library.AList"
begin

section \<open>Upload gateway configuration of aws-whitemap-api\<close>

text \<open>
  The repository holds two variants of one CDK stack class, \<open>AWSWhiteMapAPIStack\<close>:
  the simple one (\<^verbatim>\<open>cdk/lib/cdk-stack.ts\<close>, one upload route) and the extended one
  (two upload routes, a usage plan and an API key). Both classes use the same method
  names, so every definition below carries the prefix \<open>simple_\<close> or \<open>extended_\<close> of
  the class it is taken from. The constructs of the toolkit (\<open>RestApi\<close>, \<open>AwsIntegration\<close>,
  \<open>UsagePlan\<close> ...) are pure data here: a record of the properties the code passes.
\<close>

subsection \<open>Object literals\<close>

text \<open>
  A TypeScript object with string keys is an association list in insertion order.
  Writing a key that is already present replaces its value in place, writing a new key
  appends it: this is \<^const>\<open>AList.update\<close>. An object literal, spreads included, writes
  its properties from left to right into an empty object.
\<close>

type_synonym 'v obj = "(string \<times> 'v) list"

definition obj_literal :: "(string \<times> 'v) list \<Rightarrow> 'v obj" where
  "obj_literal ps = foldl (\<lambda>ob kv. AList.update (fst kv) (snd kv) ob) [] ps"

definition obj_keys :: "'v obj \<Rightarrow> string list" where
  "obj_keys ob = map fst ob"

definition obj_get :: "'v obj \<Rightarrow> string \<Rightarrow> 'v option" where
  "obj_get ob k = map_of ob k"

text \<open>
  Two characters of the source's string literals cannot be written inside an Isabelle
  string literal: the single quote of the static header values (\<^verbatim>\<open>"'*'"\<close>) and the
  backslash of the selection patterns (the TypeScript literal \<^verbatim>\<open>'4\\d{2}'\<close> is the six
  characters 4, backslash, d, left brace, 2, right brace).
\<close>

definition sq :: "string \<Rightarrow> string" where
  "sq s = CHR 0x27 # s @ [CHR 0x27]"

definition backslash :: char where
  "backslash = CHR 0x5C"

subsection \<open>Data model\<close>

record Props =
  clientStack_stackName :: string
  clientStack_bucketName :: string
  apiStack_restApiGatewayName :: string

record IBucket =
  bucket_id :: string
  bucketName :: string

record Role =
  role_id :: string
  assumedBy :: string
  role_path :: string

datatype PassthroughBehavior = WHEN_NO_MATCH | WHEN_NO_TEMPLATES | NEVER

datatype Period = DAY | WEEK | MONTH

record IntegrationResponse =
  statusCode :: string
  selectionPattern :: "string option"
  responseParameters :: "string obj"

record AwsIntegration =
  service :: string
  integrationHttpMethod :: string
  path :: string
  credentialsRole :: Role
  passthroughBehavior :: PassthroughBehavior
  requestParameters :: "string obj"
  integrationResponses :: "IntegrationResponse list"

record MethodResponse =
  mr_statusCode :: string
  mr_responseParameters :: "bool obj"

record MethodOptions =
  apiKeyRequired :: "bool option"
  mo_requestParameters :: "bool obj"
  methodResponses :: "MethodResponse list"

record Method =
  httpMethod :: string
  resourcePath :: "string list"
  integration :: AwsIntegration
  methodOptions :: MethodOptions

record CorsOptions =
  allowOrigins :: "string list"
  allowMethods :: "string list"
  cors_statusCode :: nat

record RestApi =
  restApi_id :: string
  restApiName :: string
  stageName :: string
  defaultCorsPreflightOptions :: "CorsOptions option"
  binaryMediaTypes :: "string list option"

record PreflightMethod =
  pf_resourcePath :: "string list"
  pf_options :: CorsOptions

record UsagePlan =
  usagePlan_id :: string
  quota_limit :: nat
  quota_period :: Period
  throttle_burstLimit :: nat
  throttle_rateLimit :: nat
  plan_apiKeys :: "string list"
  plan_apiStages :: "(string \<times> string) list"

datatype OutputValue = KeyIdOf string

text \<open>
  The stack under construction: every construct is appended to the list of its kind, in
  creation order. \<open>methods\<close> holds the methods the code registers with \<open>addMethod\<close>,
  \<open>preflights\<close> the OPTIONS methods the toolkit registers by itself for CORS preflight.
\<close>

record Stack =
  roles :: "Role list"
  grantsReadWrite :: "(string \<times> string) list"
  restApis :: "RestApi list"
  resources :: "string list list"
  methods :: "Method list"
  preflights :: "PreflightMethod list"
  apiKeys :: "string list"
  usagePlans :: "UsagePlan list"
  outputs :: "(string \<times> OutputValue) list"

definition emptyStack :: Stack where
  "emptyStack = \<lparr>roles = [], grantsReadWrite = [], restApis = [], resources = [],
     methods = [], preflights = [], apiKeys = [], usagePlans = [], outputs = []\<rparr>"

subsection \<open>Toolkit calls the code makes\<close>

text \<open>
  Each call records the construct it creates. A resource is the list of its path parts
  from the root. The toolkit refuses a second child with the same path part under one
  parent; the constructors never ask for one (\<open>simple_resources_distinct\<close>,
  \<open>extended_resources_distinct\<close>), so \<open>addResource\<close> has no failing branch here. The
  toolkit constant \<^verbatim>\<open>Cors.ALL_ORIGINS\<close> is the one-element list of the star.

  The option \<open>defaultCorsPreflightOptions\<close> of a REST API is read by the toolkit, not by the
  code of the stack: where it is set, the toolkit registers an OPTIONS method answering
  the CORS preflight on the root resource when the REST API is created, and on every
  resource added below it. \<open>addCorsPreflight\<close> is that registration; \<open>newRestApi\<close> and
  \<open>addResource\<close> perform it, as the toolkit's constructors of the REST API and of a resource
  do.
\<close>

definition fromBucketName :: "string \<Rightarrow> string \<Rightarrow> IBucket" where
  "fromBucketName ident name = \<lparr>bucket_id = ident, bucketName = name\<rparr>"

definition addCorsPreflight :: "string list \<Rightarrow> Stack \<Rightarrow> Stack" where
  "addCorsPreflight res s =
     s\<lparr>preflights := preflights s @
        map (\<lambda>opts. \<lparr>pf_resourcePath = res, pf_options = opts\<rparr>)
          (List.map_filter defaultCorsPreflightOptions (restApis s))\<rparr>"

definition newRestApi :: "RestApi \<Rightarrow> Stack \<Rightarrow> Stack" where
  "newRestApi api s = addCorsPreflight [] (s\<lparr>restApis := restApis s @ [api]\<rparr>)"

definition addResource :: "string list \<Rightarrow> string \<Rightarrow> Stack \<Rightarrow> string list \<times> Stack" where
  "addResource parent pathPart s =
     (let r = parent @ [pathPart]
      in (r, addCorsPreflight r (s\<lparr>resources := resources s @ [r]\<rparr>)))"

definition addMethod ::
  "string list \<Rightarrow> string \<Rightarrow> AwsIntegration \<Rightarrow> MethodOptions \<Rightarrow> Stack \<Rightarrow> Stack" where
  "addMethod res verb integ opts s =
     s\<lparr>methods := methods s @
        [\<lparr>httpMethod = verb, resourcePath = res, integration = integ, methodOptions = opts\<rparr>]\<rparr>"

definition addApiKey :: "string \<Rightarrow> Stack \<Rightarrow> string \<times> Stack" where
  "addApiKey ident s = (ident, s\<lparr>apiKeys := apiKeys s @ [ident]\<rparr>)"

definition addUsagePlan ::
  "string \<Rightarrow> nat \<Rightarrow> Period \<Rightarrow> nat \<Rightarrow> nat \<Rightarrow> Stack \<Rightarrow> string \<times> Stack" where
  "addUsagePlan ident lim per burst rate s =
     (ident, s\<lparr>usagePlans := usagePlans s @
        [\<lparr>usagePlan_id = ident, quota_limit = lim, quota_period = per,
          throttle_burstLimit = burst, throttle_rateLimit = rate,
          plan_apiKeys = [], plan_apiStages = []\<rparr>]\<rparr>)"

definition usagePlan_addApiKey :: "string \<Rightarrow> string \<Rightarrow> Stack \<Rightarrow> Stack" where
  "usagePlan_addApiKey plan key s =
     s\<lparr>usagePlans := map (\<lambda>p. if usagePlan_id p = plan
                                then p\<lparr>plan_apiKeys := plan_apiKeys p @ [key]\<rparr> else p)
                           (usagePlans s)\<rparr>"

definition usagePlan_addApiStage :: "string \<Rightarrow> string \<times> string \<Rightarrow> Stack \<Rightarrow> Stack" where
  "usagePlan_addApiStage plan stage s =
     s\<lparr>usagePlans := map (\<lambda>p. if usagePlan_id p = plan
                                then p\<lparr>plan_apiStages := plan_apiStages p @ [stage]\<rparr> else p)
                           (usagePlans s)\<rparr>"

definition deploymentStage :: "RestApi \<Rightarrow> string \<times> string" where
  "deploymentStage api = (restApi_id api, stageName api)"

definition CfnOutput :: "string \<Rightarrow> OutputValue \<Rightarrow> Stack \<Rightarrow> Stack" where
  "CfnOutput ident v s = s\<lparr>outputs := outputs s @ [(ident, v)]\<rparr>"

text \<open>The path of a resource; the root resource has the path \<^verbatim>\<open>/\<close>.\<close>

definition pathTemplate :: "string list \<Rightarrow> string" where
  "pathTemplate segs = (if segs = [] then ''/'' else concat (map (\<lambda>p. CHR ''/'' # p) segs))"

text \<open>
  The HTTP surface of a stack: every pair of an HTTP method and a resource path that the
  deployed API answers, the methods of the code first, then the preflight methods.
\<close>

definition httpSurface :: "Stack \<Rightarrow> (string \<times> string) list" where
  "httpSurface s =
     map (\<lambda>m. (httpMethod m, pathTemplate (resourcePath m))) (methods s)
     @ map (\<lambda>pf. (''OPTIONS'', pathTemplate (pf_resourcePath pf))) (preflights s)"

subsection \<open>The simple variant\<close>

definition simple_createRestAPIRole :: "IBucket \<Rightarrow> Stack \<Rightarrow> Role \<times> Stack" where
  "simple_createRestAPIRole bucket s =
     (let restApiRole = \<lparr>role_id = ''Role'', assumedBy = ''apigateway.amazonaws.com'',
                           role_path = ''/''\<rparr>
      in (restApiRole,
          s\<lparr>roles := roles s @ [restApiRole],
            grantsReadWrite := grantsReadWrite s @ [(bucketName bucket, role_id restApiRole)]\<rparr>))"

definition simple_createRestAPIGateway :: "string \<Rightarrow> Stack \<Rightarrow> RestApi \<times> Stack" where
  "simple_createRestAPIGateway name s =
     (let restApi = \<lparr>restApi_id = name, restApiName = name, stageName = ''v1'',
                       defaultCorsPreflightOptions = Some
                         \<lparr>allowOrigins = [''*''],
                          allowMethods = [''POST'', ''OPTIONS'', ''PUT'', ''DELETE''],
                          cors_statusCode = 200\<rparr>,
                       binaryMediaTypes = None\<rparr>
      in (restApi, newRestApi restApi s))"

definition simple_createServerErrorResponse :: IntegrationResponse where
  "simple_createServerErrorResponse =
     \<lparr>statusCode = ''500'',
      selectionPattern = Some (CHR ''5'' # backslash # ''d{2}''),
      responseParameters = obj_literal
        [(''method.response.header.Access-Control-Allow-Headers'',
            sq ''Content-Type,Authorization''),
         (''method.response.header.Access-Control-Allow-Methods'',
            sq ''OPTIONS,POST,PUT,GET,DELETE''),
         (''method.response.header.Access-Control-Allow-Origin'', sq ''*'')]\<rparr>"

definition simple_createNotFoundResponse :: IntegrationResponse where
  "simple_createNotFoundResponse =
     \<lparr>statusCode = ''400'',
      selectionPattern = Some (CHR ''4'' # backslash # ''d{2}''),
      responseParameters = responseParameters simple_createServerErrorResponse\<rparr>"

definition simple_createOkResponse :: IntegrationResponse where
  "simple_createOkResponse =
     \<lparr>statusCode = ''200'',
      selectionPattern = None,
      responseParameters = obj_literal
        ([(''method.response.header.Timestamp'', ''integration.response.header.Date''),
          (''method.response.header.Content-Length'',
             ''integration.response.header.Content-Length''),
          (''method.response.header.Content-Type'',
             ''integration.response.header.Content-Type'')]
         @ responseParameters simple_createServerErrorResponse)\<rparr>"

definition simple_createAwsIntegrationToUploadBackgroundImage :: "string \<Rightarrow> Role \<Rightarrow> AwsIntegration" where
  "simple_createAwsIntegrationToUploadBackgroundImage toUploadBucketPath restApiRole =
     \<lparr>service = ''s3'',
      integrationHttpMethod = ''PUT'',
      path = toUploadBucketPath,
      credentialsRole = restApiRole,
      passthroughBehavior = WHEN_NO_MATCH,
      requestParameters = obj_literal
        [(''integration.request.path.folder'', ''method.request.path.userId''),
         (''integration.request.path.object'', ''method.request.path.fileName'')],
      integrationResponses =
        [simple_createOkResponse, simple_createNotFoundResponse, simple_createServerErrorResponse]\<rparr>"

definition simple_createMethodOptions :: MethodOptions where
  "simple_createMethodOptions =
     (let responseParameters = obj_literal
        [(''method.response.header.Access-Control-Allow-Headers'', True),
         (''method.response.header.Access-Control-Allow-Methods'', True),
         (''method.response.header.Access-Control-Allow-Origin'', True)]
      in \<lparr>apiKeyRequired = None,
          mo_requestParameters = obj_literal
            [(''method.request.path.userId'', True),
             (''method.request.path.fileName'', True)],
          methodResponses =
            [\<lparr>mr_statusCode = ''200'',
              mr_responseParameters = obj_literal
                ([(''method.response.header.Timestamp'', True),
                  (''method.response.header.Content-Length'', True),
                  (''method.response.header.Content-Type'', True)]
                 @ responseParameters)\<rparr>,
             \<lparr>mr_statusCode = ''400'', mr_responseParameters = responseParameters\<rparr>,
             \<lparr>mr_statusCode = ''500'', mr_responseParameters = responseParameters\<rparr>]\<rparr>)"

text \<open>
  The constructor: the bucket of the client stack is looked up, the role and the REST API
  are created, then the resource chain \<^verbatim>\<open>/users/{userId}/files/{fileName}\<close> and its one
  PUT method.
\<close>

definition simple_constructor :: "Props \<Rightarrow> Stack" where
  "simple_constructor props =
     (let bucket = fromBucketName (clientStack_stackName props) (clientStack_bucketName props);
          (restApiRole, s1) = simple_createRestAPIRole bucket emptyStack;
          (restApi, s2) = simple_createRestAPIGateway (apiStack_restApiGatewayName props) s1;
          integration = simple_createAwsIntegrationToUploadBackgroundImage
            (bucketName bucket @ ''/data/background-images/{folder}/{object}'') restApiRole;
          methodOptions = simple_createMethodOptions;
          (users, s3) = addResource [] ''users'' s2;
          (userId, s4) = addResource users ''{userId}'' s3;
          (files, s5) = addResource userId ''files'' s4;
          (fileName, s6) = addResource files ''{fileName}'' s5
      in addMethod fileName ''PUT'' integration methodOptions s6)"

subsection \<open>The extended variant\<close>

definition extended_createRestAPIRole :: "IBucket \<Rightarrow> Stack \<Rightarrow> Role \<times> Stack" where
  "extended_createRestAPIRole bucket s =
     (let restApiRole = \<lparr>role_id = ''Role'', assumedBy = ''apigateway.amazonaws.com'',
                           role_path = ''/''\<rparr>
      in (restApiRole,
          s\<lparr>roles := roles s @ [restApiRole],
            grantsReadWrite := grantsReadWrite s @ [(bucketName bucket, role_id restApiRole)]\<rparr>))"

definition extended_createRestAPIGateway :: "string \<Rightarrow> Stack \<Rightarrow> RestApi \<times> Stack" where
  "extended_createRestAPIGateway name s =
     (let restApi = \<lparr>restApi_id = name, restApiName = name, stageName = ''v1'',
                       defaultCorsPreflightOptions = Some
                         \<lparr>allowOrigins = [''*''],
                          allowMethods = [''POST'', ''OPTIONS'', ''PUT'', ''DELETE''],
                          cors_statusCode = 200\<rparr>,
                       binaryMediaTypes = Some [''image/*'', ''audio/*'']\<rparr>
      in (restApi, newRestApi restApi s))"

definition extended_createServerErrorResponse :: IntegrationResponse where
  "extended_createServerErrorResponse =
     \<lparr>statusCode = ''500'',
      selectionPattern = Some (CHR ''5'' # backslash # ''d{2}''),
      responseParameters = obj_literal
        [(''method.response.header.Access-Control-Allow-Headers'',
            sq ''Content-Type,Authorization''),
         (''method.response.header.Access-Control-Allow-Methods'',
            sq ''OPTIONS,POST,PUT,GET,DELETE''),
         (''method.response.header.Access-Control-Allow-Origin'', sq ''*'')]\<rparr>"

definition extended_createNotFoundResponse :: IntegrationResponse where
  "extended_createNotFoundResponse =
     \<lparr>statusCode = ''400'',
      selectionPattern = Some (CHR ''4'' # backslash # ''d{2}''),
      responseParameters = responseParameters extended_createServerErrorResponse\<rparr>"

definition extended_createOkResponse :: IntegrationResponse where
  "extended_createOkResponse =
     \<lparr>statusCode = ''200'',
      selectionPattern = None,
      responseParameters = obj_literal
        ([(''method.response.header.Timestamp'', ''integration.response.header.Date''),
          (''method.response.header.Content-Length'',
             ''integration.response.header.Content-Length''),
          (''method.response.header.Content-Type'',
             ''integration.response.header.Content-Type'')]
         @ responseParameters extended_createServerErrorResponse)\<rparr>"

definition extended_createAwsIntegrationToUploadBucket :: "string \<Rightarrow> Role \<Rightarrow> AwsIntegration" where
  "extended_createAwsIntegrationToUploadBucket toUploadBucketPath restApiRole =
     \<lparr>service = ''s3'',
      integrationHttpMethod = ''PUT'',
      path = toUploadBucketPath,
      credentialsRole = restApiRole,
      passthroughBehavior = WHEN_NO_MATCH,
      requestParameters = obj_literal
        [(''integration.request.header.Content-Type'', ''method.request.header.Content-Type''),
         (''integration.request.path.folder'', ''method.request.path.userId''),
         (''integration.request.path.object'', ''method.request.path.fileName'')],
      integrationResponses =
        [extended_createOkResponse, extended_createNotFoundResponse, extended_createServerErrorResponse]\<rparr>"

definition extended_createMethodOptions :: MethodOptions where
  "extended_createMethodOptions =
     (let responseParameters = obj_literal
        [(''method.response.header.Access-Control-Allow-Headers'', True),
         (''method.response.header.Access-Control-Allow-Methods'', True),
         (''method.response.header.Access-Control-Allow-Origin'', True)]
      in \<lparr>apiKeyRequired = Some True,
          mo_requestParameters = obj_literal
            [(''method.request.header.Content-Type'', True),
             (''method.request.path.userId'', True),
             (''method.request.path.fileName'', True)],
          methodResponses =
            [\<lparr>mr_statusCode = ''200'',
              mr_responseParameters = obj_literal
                ([(''method.response.header.Timestamp'', True),
                  (''method.response.header.Content-Length'', True),
                  (''method.response.header.Content-Type'', True)]
                 @ responseParameters)\<rparr>,
             \<lparr>mr_statusCode = ''400'', mr_responseParameters = responseParameters\<rparr>,
             \<lparr>mr_statusCode = ''500'', mr_responseParameters = responseParameters\<rparr>]\<rparr>)"

definition extended_createUsagePlan :: "RestApi \<Rightarrow> Props \<Rightarrow> Stack \<Rightarrow> Stack" where
  "extended_createUsagePlan restApi props s =
     (let (apiKey, s1) = addApiKey ''defaultKeys'' s;
          (usagePlan, s2) = addUsagePlan (apiStack_restApiGatewayName props @ ''-usage-plan'')
                              30 DAY 2 1 s1;
          s3 = usagePlan_addApiKey usagePlan apiKey s2;
          s4 = usagePlan_addApiStage usagePlan (deploymentStage restApi) s3
      in CfnOutput ''APIKey'' (KeyIdOf apiKey) s4)"

text \<open>
  The constructor: as in the simple variant, with the usage plan created right after the
  REST API, one integration per category, and the two resource chains below
  \<^verbatim>\<open>/users/{userId}/files\<close>.
\<close>

definition extended_constructor :: "Props \<Rightarrow> Stack" where
  "extended_constructor props =
     (let bucket = fromBucketName (clientStack_stackName props) (clientStack_bucketName props);
          (restApiRole, s1) = extended_createRestAPIRole bucket emptyStack;
          (restApi, s2) = extended_createRestAPIGateway (apiStack_restApiGatewayName props) s1;
          s3 = extended_createUsagePlan restApi props s2;
          backgroundImageIntegration = extended_createAwsIntegrationToUploadBucket
            (bucketName bucket @ ''/data/background-images/{folder}/{object}'') restApiRole;
          bgmIntegration = extended_createAwsIntegrationToUploadBucket
            (bucketName bucket @ ''/data/bgms/{folder}/{object}'') restApiRole;
          methodOptions = extended_createMethodOptions;
          (users, s4) = addResource [] ''users'' s3;
          (userId, s5) = addResource users ''{userId}'' s4;
          (files, s6) = addResource userId ''files'' s5;
          (background, s7) = addResource files ''background-images'' s6;
          (fileName, s8) = addResource background ''{fileName}'' s7;
          s9 = addMethod fileName ''PUT'' backgroundImageIntegration methodOptions s8;
          (bgms, s10) = addResource files ''bgms'' s9;
          (bgmFileName, s11) = addResource bgms ''{fileName}'' s10
      in addMethod bgmFileName ''PUT'' bgmIntegration methodOptions s11)"

text \<open>The properties the entry point \<^verbatim>\<open>cdk/bin/cdk.ts\<close> passes to the stack.\<close>

definition properties :: Props where
  "properties = \<lparr>clientStack_stackName = ''AWSWhiteMapClientStack'',
                  clientStack_bucketName = ''aws-whitemap-cloudfront'',
                  apiStack_restApiGatewayName = ''aws-whitemap-api''\<rparr>"

subsection \<open>Behaviour of the gateway\<close>

text \<open>
  What the deployed gateway does with the configuration is not code of this repository.
  The three groups of definitions below give it a meaning, as far as the properties of the
  response table and of the storage path need one.
\<close>

text \<open>
  Modelled from the spec: the regular-expression engine of the gateway is missing from the
  repository. A selection pattern is "a regular expression over the backend's response
  status used to pick which response tier applies". The fragment read here has literal
  characters, the digit class (backslash, d) and the counted repetition \<^verbatim>\<open>{n}\<close> of the
  atom before it; a pattern using anything else is not understood (\<open>None\<close>) and matches
  nothing. A pattern matches a status when it matches the whole text of the status.
\<close>

datatype atom = Lit char | Digit

datatype pstate = Plain | Escape | Count "nat option"

definition is_digit :: "char \<Rightarrow> bool" where
  "is_digit c = (48 \<le> (of_char c :: nat) \<and> (of_char c :: nat) \<le> 57)"

definition digit_val :: "char \<Rightarrow> nat" where
  "digit_val c = of_char c - 48"

definition special :: "char \<Rightarrow> bool" where
  "special c = (c \<in> set ''.^$*+?()[]|}'')"

fun parse_pattern ::
  "pstate \<Rightarrow> (atom \<times> nat option) list \<Rightarrow> string \<Rightarrow> (atom \<times> nat option) list option" where
  "parse_pattern Plain acc [] = Some (rev acc)"
| "parse_pattern Plain acc (c # cs) =
     (if c = backslash then parse_pattern Escape acc cs
      else if c = CHR ''{'' then
        (case acc of
           (a, None) # acc' \<Rightarrow> parse_pattern (Count None) acc cs
         | _ \<Rightarrow> None)
      else if special c then None
      else parse_pattern Plain ((Lit c, None) # acc) cs)"
| "parse_pattern Escape acc [] = None"
| "parse_pattern Escape acc (c # cs) =
     (if c = CHR ''d'' then parse_pattern Plain ((Digit, None) # acc) cs else None)"
| "parse_pattern (Count n) acc [] = None"
| "parse_pattern (Count n) acc (c # cs) =
     (if c = CHR ''}'' then
        (case (n, acc) of
           (Some k, (a, q) # acc') \<Rightarrow> parse_pattern Plain ((a, Some k) # acc') cs
         | _ \<Rightarrow> None)
      else if is_digit c then
        parse_pattern (Count (Some (10 * (case n of None \<Rightarrow> 0 | Some k \<Rightarrow> k) + digit_val c)))
          acc cs
      else None)"

fun atom_matches :: "atom \<Rightarrow> char \<Rightarrow> bool" where
  "atom_matches (Lit c) x = (x = c)"
| "atom_matches Digit x = is_digit x"

definition expand :: "(atom \<times> nat option) list \<Rightarrow> atom list" where
  "expand qs = concat (map (\<lambda>aq. replicate (case snd aq of None \<Rightarrow> 1 | Some k \<Rightarrow> k) (fst aq)) qs)"

definition pattern_matches :: "string \<Rightarrow> string \<Rightarrow> bool" where
  "pattern_matches p status =
     (case parse_pattern Plain [] p of
        None \<Rightarrow> False
      | Some qs \<Rightarrow> list_all2 atom_matches (expand qs) status)"

text \<open>
  Modelled from the spec: the gateway's choice of a response tier is missing from the
  repository. A tier with a selection pattern is selected when its pattern matches the
  upstream status; the tier without a pattern is the default, selected when no pattern
  of the table matches. \<open>selectResponse\<close> is the tier the gateway answers with.
\<close>

definition pattern_selects :: "IntegrationResponse \<Rightarrow> string \<Rightarrow> bool" where
  "pattern_selects r status =
     (case selectionPattern r of None \<Rightarrow> False | Some p \<Rightarrow> pattern_matches p status)"

definition tier_selected :: "IntegrationResponse list \<Rightarrow> IntegrationResponse \<Rightarrow> string \<Rightarrow> bool" where
  "tier_selected table r status =
     (case selectionPattern r of
        None \<Rightarrow> \<not> list_ex (\<lambda>r'. pattern_selects r' status) table
      | Some p \<Rightarrow> pattern_matches p status)"

definition selectResponse :: "IntegrationResponse list \<Rightarrow> string \<Rightarrow> IntegrationResponse option" where
  "selectResponse table status =
     (case filter (\<lambda>r. pattern_selects r status) table of
        r # _ \<Rightarrow> Some r
      | [] \<Rightarrow> (case filter (\<lambda>r. selectionPattern r = None) table of
                 r # _ \<Rightarrow> Some r
               | [] \<Rightarrow> None))"

text \<open>The text of an upstream status code: its decimal digits.\<close>

definition digit_char :: "nat \<Rightarrow> char" where
  "digit_char d = char_of (48 + d)"

fun decimal :: "nat \<Rightarrow> string" where
  "decimal n = (if n < 10 then [digit_char n] else decimal (n div 10) @ [digit_char (n mod 10)])"

declare decimal.simps [simp del]

text \<open>
  Modelled from the spec: the gateway's substitution of path placeholders is missing from
  the repository. The storage target is the integration's path in which \<^verbatim>\<open>{folder}\<close> "is
  bound to the incoming \<^verbatim>\<open>{userId}\<close> value and \<^verbatim>\<open>{object}\<close> to the incoming \<^verbatim>\<open>{fileName}\<close>
  value". The bindings are read off the integration's request parameters: an entry
  \<^verbatim>\<open>integration.request.path.X\<close> with value \<^verbatim>\<open>method.request.path.Y\<close> binds the placeholder
  \<open>X\<close> to the incoming path parameter \<open>Y\<close>. \<open>substitute\<close> scans the template once, from
  left to right; its second argument holds the placeholder name read so far (in reverse)
  while the scan is between braces. A placeholder without a binding stays as it is.
\<close>

fun strip_prefix :: "string \<Rightarrow> string \<Rightarrow> string option" where
  "strip_prefix [] s = Some s"
| "strip_prefix (p # ps) [] = None"
| "strip_prefix (p # ps) (c # cs) = (if p = c then strip_prefix ps cs else None)"

fun substitute :: "(string \<times> string) list \<Rightarrow> string option \<Rightarrow> string \<Rightarrow> string" where
  "substitute env None [] = []"
| "substitute env None (c # cs) =
     (if c = CHR ''{'' then substitute env (Some []) cs else c # substitute env None cs)"
| "substitute env (Some nm) [] = CHR ''{'' # rev nm"
| "substitute env (Some nm) (c # cs) =
     (if c = CHR ''}'' then
        (case map_of env (rev nm) of
           Some v \<Rightarrow> v
         | None \<Rightarrow> CHR ''{'' # rev nm @ ''}'') @ substitute env None cs
      else substitute env (Some (c # nm)) cs)"

definition pathBinding :: "string obj \<Rightarrow> string \<times> string \<Rightarrow> (string \<times> string) option" where
  "pathBinding params kv =
     (case strip_prefix ''integration.request.path.'' (fst kv) of
        None \<Rightarrow> None
      | Some name \<Rightarrow>
          (case strip_prefix ''method.request.path.'' (snd kv) of
             None \<Rightarrow> None
           | Some src \<Rightarrow>
               (case obj_get params src of
                  None \<Rightarrow> None
                | Some x \<Rightarrow> Some (name, x))))"

definition storagePath :: "AwsIntegration \<Rightarrow> string obj \<Rightarrow> string" where
  "storagePath integ params =
     substitute (List.map_filter (pathBinding params) (requestParameters integ)) None (path integ)"

text \<open>The path parameters of an incoming upload request.\<close>

definition uploadRequest :: "string \<Rightarrow> string \<Rightarrow> string obj" where
  "uploadRequest userId fileName = [(''userId'', userId), (''fileName'', fileName)]"

text \<open>
  A value bound to a path parameter such as \<^verbatim>\<open>{userId}\<close> is one segment of the request
  path: it is not empty and holds no slash.
\<close>

definition validSegment :: "string \<Rightarrow> bool" where
  "validSegment s = (s \<noteq> [] \<and> CHR ''/'' \<notin> set s)"

subsection \<open>The CORS header block\<close>

text \<open>
  The three CORS headers and their values, as the interface description lists them:
  origin \<^verbatim>\<open>*\<close>, methods \<^verbatim>\<open>OPTIONS,POST,PUT,GET,DELETE\<close>, headers
  \<^verbatim>\<open>Content-Type,Authorization\<close>, each written as a quoted static value.
\<close>

definition corsHeaders :: "(string \<times> string) list" where
  "corsHeaders =
     [(''method.response.header.Access-Control-Allow-Origin'', sq ''*''),
      (''method.response.header.Access-Control-Allow-Methods'', sq ''OPTIONS,POST,PUT,GET,DELETE''),
      (''method.response.header.Access-Control-Allow-Headers'', sq ''Content-Type,Authorization'')]"

definition carriesAnyCors :: "IntegrationResponse \<Rightarrow> bool" where
  "carriesAnyCors r =
     list_ex (\<lambda>kv. obj_get (responseParameters r) (fst kv) \<noteq> None) corsHeaders"

definition carriesAllCors :: "IntegrationResponse \<Rightarrow> bool" where
  "carriesAllCors r =
     list_all (\<lambda>kv. obj_get (responseParameters r) (fst kv) = Some (snd kv)) corsHeaders"

section \<open>Normal forms of the configuration\<close>

lemmas constructor_defs = Let_def emptyStack_def fromBucketName_def addCorsPreflight_def
  newRestApi_def List.map_filter_simps addResource_def addMethod_def addApiKey_def addUsagePlan_def usagePlan_addApiKey_def usagePlan_addApiStage_def
  deploymentStage_def CfnOutput_def

lemma simple_error_parameters:
  "responseParameters simple_createServerErrorResponse =
     [(''method.response.header.Access-Control-Allow-Headers'', sq ''Content-Type,Authorization''),
      (''method.response.header.Access-Control-Allow-Methods'', sq ''OPTIONS,POST,PUT,GET,DELETE''),
      (''method.response.header.Access-Control-Allow-Origin'', sq ''*'')]"
  by (simp add: simple_createServerErrorResponse_def obj_literal_def)

lemma simple_ok_parameters:
  "responseParameters simple_createOkResponse =
     [(''method.response.header.Timestamp'', ''integration.response.header.Date''),
      (''method.response.header.Content-Length'', ''integration.response.header.Content-Length''),
      (''method.response.header.Content-Type'', ''integration.response.header.Content-Type''),
      (''method.response.header.Access-Control-Allow-Headers'', sq ''Content-Type,Authorization''),
      (''method.response.header.Access-Control-Allow-Methods'', sq ''OPTIONS,POST,PUT,GET,DELETE''),
      (''method.response.header.Access-Control-Allow-Origin'', sq ''*'')]"
  by (simp add: simple_createOkResponse_def simple_error_parameters obj_literal_def)

lemma simple_notFound_parameters:
  "responseParameters simple_createNotFoundResponse =
     responseParameters simple_createServerErrorResponse"
  by (simp add: simple_createNotFoundResponse_def)

lemma extended_error_parameters:
  "responseParameters extended_createServerErrorResponse =
     [(''method.response.header.Access-Control-Allow-Headers'', sq ''Content-Type,Authorization''),
      (''method.response.header.Access-Control-Allow-Methods'', sq ''OPTIONS,POST,PUT,GET,DELETE''),
      (''method.response.header.Access-Control-Allow-Origin'', sq ''*'')]"
  by (simp add: extended_createServerErrorResponse_def obj_literal_def)

lemma extended_ok_parameters:
  "responseParameters extended_createOkResponse =
     [(''method.response.header.Timestamp'', ''integration.response.header.Date''),
      (''method.response.header.Content-Length'', ''integration.response.header.Content-Length''),
      (''method.response.header.Content-Type'', ''integration.response.header.Content-Type''),
      (''method.response.header.Access-Control-Allow-Headers'', sq ''Content-Type,Authorization''),
      (''method.response.header.Access-Control-Allow-Methods'', sq ''OPTIONS,POST,PUT,GET,DELETE''),
      (''method.response.header.Access-Control-Allow-Origin'', sq ''*'')]"
  by (simp add: extended_createOkResponse_def extended_error_parameters obj_literal_def)

lemma extended_notFound_parameters:
  "responseParameters extended_createNotFoundResponse =
     responseParameters extended_createServerErrorResponse"
  by (simp add: extended_createNotFoundResponse_def)

lemma simple_integrationResponses:
  "integrationResponses (simple_createAwsIntegrationToUploadBackgroundImage p r) =
     [simple_createOkResponse, simple_createNotFoundResponse, simple_createServerErrorResponse]"
  by (simp add: simple_createAwsIntegrationToUploadBackgroundImage_def)

lemma extended_integrationResponses:
  "integrationResponses (extended_createAwsIntegrationToUploadBucket p r) =
     [extended_createOkResponse, extended_createNotFoundResponse,
      extended_createServerErrorResponse]"
  by (simp add: extended_createAwsIntegrationToUploadBucket_def)

lemma simple_tier_codes:
  "statusCode simple_createOkResponse = ''200''"
  "statusCode simple_createNotFoundResponse = ''400''"
  "statusCode simple_createServerErrorResponse = ''500''"
  by (simp_all add: simple_createOkResponse_def simple_createNotFoundResponse_def
        simple_createServerErrorResponse_def)

lemma simple_tier_patterns:
  "selectionPattern simple_createOkResponse = None"
  "selectionPattern simple_createNotFoundResponse = Some (CHR ''4'' # backslash # ''d{2}'')"
  "selectionPattern simple_createServerErrorResponse = Some (CHR ''5'' # backslash # ''d{2}'')"
  by (simp_all add: simple_createOkResponse_def simple_createNotFoundResponse_def
        simple_createServerErrorResponse_def)

lemma extended_tier_codes:
  "statusCode extended_createOkResponse = ''200''"
  "statusCode extended_createNotFoundResponse = ''400''"
  "statusCode extended_createServerErrorResponse = ''500''"
  by (simp_all add: extended_createOkResponse_def extended_createNotFoundResponse_def
        extended_createServerErrorResponse_def)

lemma extended_tier_patterns:
  "selectionPattern extended_createOkResponse = None"
  "selectionPattern extended_createNotFoundResponse = Some (CHR ''4'' # backslash # ''d{2}'')"
  "selectionPattern extended_createServerErrorResponse = Some (CHR ''5'' # backslash # ''d{2}'')"
  by (simp_all add: extended_createOkResponse_def extended_createNotFoundResponse_def
        extended_createServerErrorResponse_def)

lemma simple_methods:
  "methods (simple_constructor props) =
     [\<lparr>httpMethod = ''PUT'',
       resourcePath = [''users'', ''{userId}'', ''files'', ''{fileName}''],
       integration = simple_createAwsIntegrationToUploadBackgroundImage
         (clientStack_bucketName props @ ''/data/background-images/{folder}/{object}'')
         \<lparr>role_id = ''Role'', assumedBy = ''apigateway.amazonaws.com'', role_path = ''/''\<rparr>,
       methodOptions = simple_createMethodOptions\<rparr>]"
  by (simp add: simple_constructor_def simple_createRestAPIRole_def
        simple_createRestAPIGateway_def constructor_defs)

lemma extended_methods:
  "methods (extended_constructor props) =
     [\<lparr>httpMethod = ''PUT'',
       resourcePath = [''users'', ''{userId}'', ''files'', ''background-images'', ''{fileName}''],
       integration = extended_createAwsIntegrationToUploadBucket
         (clientStack_bucketName props @ ''/data/background-images/{folder}/{object}'')
         \<lparr>role_id = ''Role'', assumedBy = ''apigateway.amazonaws.com'', role_path = ''/''\<rparr>,
       methodOptions = extended_createMethodOptions\<rparr>,
      \<lparr>httpMethod = ''PUT'',
       resourcePath = [''users'', ''{userId}'', ''files'', ''bgms'', ''{fileName}''],
       integration = extended_createAwsIntegrationToUploadBucket
         (clientStack_bucketName props @ ''/data/bgms/{folder}/{object}'')
         \<lparr>role_id = ''Role'', assumedBy = ''apigateway.amazonaws.com'', role_path = ''/''\<rparr>,
       methodOptions = extended_createMethodOptions\<rparr>]"
  by (simp add: extended_constructor_def extended_createRestAPIRole_def
        extended_createRestAPIGateway_def extended_createUsagePlan_def constructor_defs)

lemma decimal_three_digits:
  assumes "100 \<le> n" and "n < 1000"
  shows "decimal n = [digit_char (n div 100), digit_char (n div 10 mod 10), digit_char (n mod 10)]"
proof -
  have n1: "\<not> n < 10" and n2: "\<not> n div 10 < 10" and n3: "n div 100 < 10"
    using assms by arith+
  have d: "n div 10 div 10 = n div 100"
    by (simp add: div_mult2_eq [symmetric])
  have a: "decimal n = decimal (n div 10) @ [digit_char (n mod 10)]"
    using n1 by (simp add: decimal.simps [of n])
  have b: "decimal (n div 10) = decimal (n div 100) @ [digit_char (n div 10 mod 10)]"
    using n2 d by (simp add: decimal.simps [of "n div 10"])
  have c: "decimal (n div 100) = [digit_char (n div 100)]"
    using n3 by (simp add: decimal.simps [of "n div 100"])
  show ?thesis by (simp add: a b c)
qed

lemma is_digit_digit_char: "d < 10 \<Longrightarrow> is_digit (digit_char d)"
  by (simp add: is_digit_def digit_char_def take_bit_eq_mod)

lemma digit_char_eq_iff: "d < 10 \<Longrightarrow> digit_char d = c \<longleftrightarrow> of_char c = 48 + d"
  by (auto simp: digit_char_def char_of_eq_iff take_bit_eq_mod)

lemma parse_client_error_pattern:
  "parse_pattern Plain [] (CHR ''4'' # backslash # ''d{2}'') = Some [(Lit CHR ''4'', None), (Digit, Some 2)]"
  by (simp add: backslash_def special_def is_digit_def digit_val_def)

lemma parse_server_error_pattern:
  "parse_pattern Plain [] (CHR ''5'' # backslash # ''d{2}'') = Some [(Lit CHR ''5'', None), (Digit, Some 2)]"
  by (simp add: backslash_def special_def is_digit_def digit_val_def)

lemma client_error_pattern_matches:
  "pattern_matches (CHR ''4'' # backslash # ''d{2}'') s \<longleftrightarrow>
     (\<exists>x y. s = [CHR ''4'', x, y] \<and> is_digit x \<and> is_digit y)"
  unfolding pattern_matches_def parse_client_error_pattern
  by (auto simp: expand_def numeral_2_eq_2 list_all2_Cons1)

lemma server_error_pattern_matches:
  "pattern_matches (CHR ''5'' # backslash # ''d{2}'') s \<longleftrightarrow>
     (\<exists>x y. s = [CHR ''5'', x, y] \<and> is_digit x \<and> is_digit y)"
  unfolding pattern_matches_def parse_server_error_pattern
  by (auto simp: expand_def numeral_2_eq_2 list_all2_Cons1)

lemma error_patterns_disjoint:
  "\<not> (pattern_matches (CHR ''4'' # backslash # ''d{2}'') s \<and>
      pattern_matches (CHR ''5'' # backslash # ''d{2}'') s)"
  by (auto simp: client_error_pattern_matches server_error_pattern_matches)

lemma client_error_pattern_decimal:
  assumes "100 \<le> n" and "n < 1000"
  shows "pattern_matches (CHR ''4'' # backslash # ''d{2}'') (decimal n) \<longleftrightarrow> 400 \<le> n \<and> n < 500"
proof -
  have "n div 100 < 10" using assms by simp
  then have "digit_char (n div 100) = CHR ''4'' \<longleftrightarrow> n div 100 = 4"
    by (simp add: digit_char_eq_iff)
  moreover have "n div 100 = 4 \<longleftrightarrow> 400 \<le> n \<and> n < 500" by arith
  ultimately show ?thesis
    using assms
    by (simp add: client_error_pattern_matches decimal_three_digits is_digit_digit_char)
qed

lemma server_error_pattern_decimal:
  assumes "100 \<le> n" and "n < 1000"
  shows "pattern_matches (CHR ''5'' # backslash # ''d{2}'') (decimal n) \<longleftrightarrow> 500 \<le> n \<and> n < 600"
proof -
  have "n div 100 < 10" using assms by simp
  then have "digit_char (n div 100) = CHR ''5'' \<longleftrightarrow> n div 100 = 5"
    by (simp add: digit_char_eq_iff)
  moreover have "n div 100 = 5 \<longleftrightarrow> 500 \<le> n \<and> n < 600" by arith
  ultimately show ?thesis
    using assms
    by (simp add: server_error_pattern_matches decimal_three_digits is_digit_digit_char)
qed

lemma three_tiers_unique:
  assumes "selectionPattern a = None"
    and "selectionPattern b = Some (CHR ''4'' # backslash # ''d{2}'')"
    and "selectionPattern c = Some (CHR ''5'' # backslash # ''d{2}'')"
  shows "\<exists>!r. r \<in> set [a, b, c] \<and> tier_selected [a, b, c] r s"
proof -
  let ?m4 = "pattern_matches (CHR ''4'' # backslash # ''d{2}'') s"
  let ?m5 = "pattern_matches (CHR ''5'' # backslash # ''d{2}'') s"
  have ne: "a \<noteq> b" "a \<noteq> c" "b \<noteq> c" using assms by auto
  have sa: "tier_selected [a, b, c] a s \<longleftrightarrow> \<not> ?m4 \<and> \<not> ?m5"
    using assms by (simp add: tier_selected_def pattern_selects_def)
  have sb: "tier_selected [a, b, c] b s \<longleftrightarrow> ?m4"
    using assms by (simp add: tier_selected_def)
  have sc: "tier_selected [a, b, c] c s \<longleftrightarrow> ?m5"
    using assms by (simp add: tier_selected_def)
  have dis: "\<not> (?m4 \<and> ?m5)" by (rule error_patterns_disjoint)
  consider (four) "?m4" | (five) "?m5" | (other) "\<not> ?m4 \<and> \<not> ?m5" by blast
  then show ?thesis
  proof cases
    case four
    then have "\<not> ?m5" using dis by blast
    with four show ?thesis using sa sb sc ne by auto
  next
    case five
    then have "\<not> ?m4" using dis by blast
    with five show ?thesis using sa sb sc ne by auto
  next
    case other
    then show ?thesis using sa sb sc ne by auto
  qed
qed

lemma three_tiers_select:
  assumes "selectionPattern a = None"
    and "selectionPattern b = Some (CHR ''4'' # backslash # ''d{2}'')"
    and "selectionPattern c = Some (CHR ''5'' # backslash # ''d{2}'')"
    and "100 \<le> n" and "n < 600"
  shows "selectResponse [a, b, c] (decimal n) =
           Some (if 400 \<le> n \<and> n < 500 then b else if 500 \<le> n then c else a)"
  using assms
  by (simp add: selectResponse_def pattern_selects_def client_error_pattern_decimal
        server_error_pattern_decimal)

lemma substitute_plain_prefix:
  "CHR ''{'' \<notin> set xs \<Longrightarrow> substitute env None (xs @ ys) = xs @ substitute env None ys"
  by (induction xs) auto

lemma simple_bindings:
  "List.map_filter (pathBinding (uploadRequest u f))
     (requestParameters (simple_createAwsIntegrationToUploadBackgroundImage p r)) =
     [(''folder'', u), (''object'', f)]"
  by (simp add: simple_createAwsIntegrationToUploadBackgroundImage_def obj_literal_def
        List.map_filter_simps pathBinding_def uploadRequest_def obj_get_def)

lemma extended_bindings:
  "List.map_filter (pathBinding (uploadRequest u f))
     (requestParameters (extended_createAwsIntegrationToUploadBucket p r)) =
     [(''folder'', u), (''object'', f)]"
  by (simp add: extended_createAwsIntegrationToUploadBucket_def obj_literal_def
        List.map_filter_simps pathBinding_def uploadRequest_def obj_get_def)

lemma substitute_key_template:
  "substitute [(''folder'', u), (''object'', f)] None ''/{folder}/{object}'' = ''/'' @ u @ ''/'' @ f"
  by simp

lemma simple_storagePath:
  assumes "CHR ''{'' \<notin> set b"
  shows "storagePath (simple_createAwsIntegrationToUploadBackgroundImage
            (b @ ''/data/background-images/{folder}/{object}'') r) (uploadRequest u f)
         = b @ ''/data/background-images/'' @ u @ ''/'' @ f"
proof -
  have "substitute [(''folder'', u), (''object'', f)] None
          ((b @ ''/data/background-images'') @ ''/{folder}/{object}'')
        = (b @ ''/data/background-images'') @ ''/'' @ u @ ''/'' @ f"
    using assms by (subst substitute_plain_prefix) (simp_all only: substitute_key_template, simp)
  moreover have "path (simple_createAwsIntegrationToUploadBackgroundImage p r) = p" for p
    by (simp add: simple_createAwsIntegrationToUploadBackgroundImage_def)
  ultimately show ?thesis
    unfolding storagePath_def simple_bindings by simp
qed

lemma extended_storagePath:
  assumes "CHR ''{'' \<notin> set b" and "CHR ''{'' \<notin> set cat"
  shows "storagePath (extended_createAwsIntegrationToUploadBucket
            (b @ ''/data/'' @ cat @ ''/{folder}/{object}'') r) (uploadRequest u f)
         = b @ ''/data/'' @ cat @ ''/'' @ u @ ''/'' @ f"
proof -
  have "substitute [(''folder'', u), (''object'', f)] None
          ((b @ ''/data/'' @ cat) @ ''/{folder}/{object}'')
        = (b @ ''/data/'' @ cat) @ ''/'' @ u @ ''/'' @ f"
    using assms by (subst substitute_plain_prefix) (simp_all only: substitute_key_template, simp)
  moreover have "path (extended_createAwsIntegrationToUploadBucket p r) = p" for p
    by (simp add: extended_createAwsIntegrationToUploadBucket_def)
  ultimately show ?thesis
    unfolding storagePath_def extended_bindings by simp
qed

lemma split_at_first_inject:
  "c \<notin> set xs \<Longrightarrow> c \<notin> set xs' \<Longrightarrow> xs @ c # ys = xs' @ c # ys'
     \<Longrightarrow> xs = xs' \<and> ys = ys'"
proof (induction xs arbitrary: xs')
  case Nil
  then show ?case by (cases xs') auto
next
  case (Cons a xs)
  then show ?case by (cases xs') auto
qed

lemma segment_pair_inject:
  assumes "validSegment u" and "validSegment u'"
    and "pre @ u @ ''/'' @ f = pre @ u' @ ''/'' @ f'"
  shows "u = u' \<and> f = f'"
proof -
  have "u @ CHR ''/'' # f = u' @ CHR ''/'' # f'" using assms(3) by simp
  moreover have "CHR ''/'' \<notin> set u" "CHR ''/'' \<notin> set u'"
    using assms(1,2) by (simp_all add: validSegment_def)
  ultimately show ?thesis by (rule split_at_first_inject [rotated 2])
qed

lemma simple_httpSurface:
  "httpSurface (simple_constructor props) =
     [(''PUT'', ''/users/{userId}/files/{fileName}''),
      (''OPTIONS'', ''/''),
      (''OPTIONS'', ''/users''),
      (''OPTIONS'', ''/users/{userId}''),
      (''OPTIONS'', ''/users/{userId}/files''),
      (''OPTIONS'', ''/users/{userId}/files/{fileName}'')]"
  by (simp add: httpSurface_def pathTemplate_def simple_constructor_def
        simple_createRestAPIRole_def simple_createRestAPIGateway_def constructor_defs)

lemma extended_httpSurface:
  "httpSurface (extended_constructor props) =
     [(''PUT'', ''/users/{userId}/files/background-images/{fileName}''),
      (''PUT'', ''/users/{userId}/files/bgms/{fileName}''),
      (''OPTIONS'', ''/''),
      (''OPTIONS'', ''/users''),
      (''OPTIONS'', ''/users/{userId}''),
      (''OPTIONS'', ''/users/{userId}/files''),
      (''OPTIONS'', ''/users/{userId}/files/background-images''),
      (''OPTIONS'', ''/users/{userId}/files/background-images/{fileName}''),
      (''OPTIONS'', ''/users/{userId}/files/bgms''),
      (''OPTIONS'', ''/users/{userId}/files/bgms/{fileName}'')]"
  by (simp add: httpSurface_def pathTemplate_def extended_constructor_def
        extended_createRestAPIRole_def extended_createRestAPIGateway_def
        extended_createUsagePlan_def constructor_defs)

lemma integration_target:
  "service (simple_createAwsIntegrationToUploadBackgroundImage p r) = ''s3''"
  "integrationHttpMethod (simple_createAwsIntegrationToUploadBackgroundImage p r) = ''PUT''"
  "service (extended_createAwsIntegrationToUploadBucket p r) = ''s3''"
  "integrationHttpMethod (extended_createAwsIntegrationToUploadBucket p r) = ''PUT''"
  by (simp_all add: simple_createAwsIntegrationToUploadBackgroundImage_def
        extended_createAwsIntegrationToUploadBucket_def)

lemma simple_resources_distinct: "distinct (resources (simple_constructor props))"
  by (simp add: simple_constructor_def simple_createRestAPIRole_def
        simple_createRestAPIGateway_def constructor_defs)

lemma extended_resources_distinct: "distinct (resources (extended_constructor props))"
  by (simp add: extended_constructor_def extended_createRestAPIRole_def
        extended_createRestAPIGateway_def extended_createUsagePlan_def constructor_defs)

text \<open>
  The segments must hold no slash: without that, moving the slash between the user id and
  the file name gives the same storage path.
\<close>

lemma storage_path_collision_with_slash:
  "storagePath (integration (hd (methods (simple_constructor properties))))
     (uploadRequest ''a/b'' ''c'')
   = storagePath (integration (hd (methods (simple_constructor properties))))
     (uploadRequest ''a'' ''b/c'')"
  unfolding simple_methods
  by (simp add: storagePath_def simple_createAwsIntegrationToUploadBackgroundImage_def
        obj_literal_def List.map_filter_simps pathBinding_def uploadRequest_def obj_get_def
        properties_def)

lemma simple_createMethodOptions_eq:
  "simple_createMethodOptions =
     \<lparr>apiKeyRequired = None,
      mo_requestParameters =
        [(''method.request.path.userId'', True), (''method.request.path.fileName'', True)],
      methodResponses =
        [\<lparr>mr_statusCode = ''200'',
          mr_responseParameters =
            [(''method.response.header.Timestamp'', True),
             (''method.response.header.Content-Length'', True),
             (''method.response.header.Content-Type'', True),
             (''method.response.header.Access-Control-Allow-Headers'', True),
             (''method.response.header.Access-Control-Allow-Methods'', True),
             (''method.response.header.Access-Control-Allow-Origin'', True)]\<rparr>,
         \<lparr>mr_statusCode = ''400'',
          mr_responseParameters =
            [(''method.response.header.Access-Control-Allow-Headers'', True),
             (''method.response.header.Access-Control-Allow-Methods'', True),
             (''method.response.header.Access-Control-Allow-Origin'', True)]\<rparr>,
         \<lparr>mr_statusCode = ''500'',
          mr_responseParameters =
            [(''method.response.header.Access-Control-Allow-Headers'', True),
             (''method.response.header.Access-Control-Allow-Methods'', True),
             (''method.response.header.Access-Control-Allow-Origin'', True)]\<rparr>]\<rparr>"
  by (simp add: simple_createMethodOptions_def obj_literal_def Let_def)

lemma extended_createMethodOptions_eq:
  "extended_createMethodOptions =
     \<lparr>apiKeyRequired = Some True,
      mo_requestParameters =
        [(''method.request.header.Content-Type'', True),
         (''method.request.path.userId'', True), (''method.request.path.fileName'', True)],
      methodResponses =
        [\<lparr>mr_statusCode = ''200'',
          mr_responseParameters =
            [(''method.response.header.Timestamp'', True),
             (''method.response.header.Content-Length'', True),
             (''method.response.header.Content-Type'', True),
             (''method.response.header.Access-Control-Allow-Headers'', True),
             (''method.response.header.Access-Control-Allow-Methods'', True),
             (''method.response.header.Access-Control-Allow-Origin'', True)]\<rparr>,
         \<lparr>mr_statusCode = ''400'',
          mr_responseParameters =
            [(''method.response.header.Access-Control-Allow-Headers'', True),
             (''method.response.header.Access-Control-Allow-Methods'', True),
             (''method.response.header.Access-Control-Allow-Origin'', True)]\<rparr>,
         \<lparr>mr_statusCode = ''500'',
          mr_responseParameters =
            [(''method.response.header.Access-Control-Allow-Headers'', True),
             (''method.response.header.Access-Control-Allow-Methods'', True),
             (''method.response.header.Access-Control-Allow-Origin'', True)]\<rparr>]\<rparr>"
  by (simp add: extended_createMethodOptions_def obj_literal_def Let_def)

lemma simple_request_bindings:
  "requestParameters (simple_createAwsIntegrationToUploadBackgroundImage p r) =
     [(''integration.request.path.folder'', ''method.request.path.userId''),
      (''integration.request.path.object'', ''method.request.path.fileName'')]"
  by (simp add: simple_createAwsIntegrationToUploadBackgroundImage_def obj_literal_def)

lemma extended_request_bindings:
  "requestParameters (extended_createAwsIntegrationToUploadBucket p r) =
     [(''integration.request.header.Content-Type'', ''method.request.header.Content-Type''),
      (''integration.request.path.folder'', ''method.request.path.userId''),
      (''integration.request.path.object'', ''method.request.path.fileName'')]"
  by (simp add: extended_createAwsIntegrationToUploadBucket_def obj_literal_def)

lemma integration_path:
  "path (simple_createAwsIntegrationToUploadBackgroundImage p r) = p"
  "path (extended_createAwsIntegrationToUploadBucket p r) = p"
  by (simp_all add: simple_createAwsIntegrationToUploadBackgroundImage_def
        extended_createAwsIntegrationToUploadBucket_def)

lemma carries_cors:
  "carriesAllCors simple_createOkResponse" "carriesAllCors simple_createNotFoundResponse"
  "carriesAllCors simple_createServerErrorResponse"
  "carriesAllCors extended_createOkResponse" "carriesAllCors extended_createNotFoundResponse"
  "carriesAllCors extended_createServerErrorResponse"
  by (simp_all add: carriesAllCors_def corsHeaders_def obj_get_def
        simple_ok_parameters simple_notFound_parameters simple_error_parameters
        extended_ok_parameters extended_notFound_parameters extended_error_parameters)

section \<open>Properties of the configuration\<close>

text \<open>
  Claim C1. Every integration either variant builds, whatever its path and role, has a response
  table of exactly three entries in this order: status code 200 without a selection
  pattern, status code 400 with the pattern 4, backslash, d, \<^verbatim>\<open>{2}\<close>, and status code 500 with
  the pattern 5, backslash, d, \<^verbatim>\<open>{2}\<close>. The first entry maps the upstream Content-Type and
  Content-Length headers to the headers of the same name and the upstream Date header to
  the Timestamp header.
\<close>

theorem response_mapping_three_tiers:
  "map statusCode
       (integrationResponses (simple_createAwsIntegrationToUploadBackgroundImage p r))
     = [''200'', ''400'', ''500'']
   \<and> map selectionPattern
       (integrationResponses (simple_createAwsIntegrationToUploadBackgroundImage p r))
     = [None, Some (CHR ''4'' # backslash # ''d{2}''), Some (CHR ''5'' # backslash # ''d{2}'')]
   \<and> map (\<lambda>k. obj_get (responseParameters
              (hd (integrationResponses
                     (simple_createAwsIntegrationToUploadBackgroundImage p r)))) k)
         [''method.response.header.Content-Type'', ''method.response.header.Content-Length'',
          ''method.response.header.Timestamp'']
     = [Some ''integration.response.header.Content-Type'',
        Some ''integration.response.header.Content-Length'',
        Some ''integration.response.header.Date'']
   \<and> map statusCode (integrationResponses (extended_createAwsIntegrationToUploadBucket p r))
     = [''200'', ''400'', ''500'']
   \<and> map selectionPattern
       (integrationResponses (extended_createAwsIntegrationToUploadBucket p r))
     = [None, Some (CHR ''4'' # backslash # ''d{2}''), Some (CHR ''5'' # backslash # ''d{2}'')]
   \<and> map (\<lambda>k. obj_get (responseParameters
              (hd (integrationResponses (extended_createAwsIntegrationToUploadBucket p r)))) k)
         [''method.response.header.Content-Type'', ''method.response.header.Content-Length'',
          ''method.response.header.Timestamp'']
     = [Some ''integration.response.header.Content-Type'',
        Some ''integration.response.header.Content-Length'',
        Some ''integration.response.header.Date'']"
  by (simp add: simple_integrationResponses extended_integrationResponses
        simple_tier_codes simple_tier_patterns extended_tier_codes extended_tier_patterns
        simple_ok_parameters extended_ok_parameters obj_get_def)

text \<open>
  Claim C2. For every upstream status code from 100 to 599, hence for every code of the classes
  2xx, 4xx and 5xx, exactly one tier of the response table is selected, in both variants:
  the 400 tier for a 4xx code, the 500 tier for a 5xx code and the default 200 tier for
  every other code. No status text at all is matched by both error patterns.
\<close>

theorem exactly_one_tier_selected:
  assumes "100 \<le> n" and "n < 600"
  shows "(\<exists>!t. t \<in> set (integrationResponses
                      (simple_createAwsIntegrationToUploadBackgroundImage p r))
            \<and> tier_selected (integrationResponses
                      (simple_createAwsIntegrationToUploadBackgroundImage p r)) t (decimal n))
       \<and> (\<exists>!t. t \<in> set (integrationResponses (extended_createAwsIntegrationToUploadBucket p r))
            \<and> tier_selected (integrationResponses
                      (extended_createAwsIntegrationToUploadBucket p r)) t (decimal n))
       \<and> map_option statusCode
            (selectResponse (integrationResponses
               (simple_createAwsIntegrationToUploadBackgroundImage p r)) (decimal n))
          = Some (if 400 \<le> n \<and> n < 500 then ''400'' else if 500 \<le> n then ''500'' else ''200'')
       \<and> map_option statusCode
            (selectResponse (integrationResponses
               (extended_createAwsIntegrationToUploadBucket p r)) (decimal n))
          = Some (if 400 \<le> n \<and> n < 500 then ''400'' else if 500 \<le> n then ''500'' else ''200'')
       \<and> \<not> (pattern_matches (CHR ''4'' # backslash # ''d{2}'') s
            \<and> pattern_matches (CHR ''5'' # backslash # ''d{2}'') s)"
proof -
  note s = three_tiers_unique [OF simple_tier_patterns, of "decimal n"]
  note e = three_tiers_unique [OF extended_tier_patterns, of "decimal n"]
  note ss = three_tiers_select [OF simple_tier_patterns assms]
  note es = three_tiers_select [OF extended_tier_patterns assms]
  show ?thesis
    unfolding simple_integrationResponses extended_integrationResponses ss es
    using s e error_patterns_disjoint [of s]
    by (simp add: simple_tier_codes extended_tier_codes)
qed

theorem exactly_one_tier_selected_witness:
  "(100::nat) \<le> 404 \<and> (404::nat) < 600
   \<and> map_option statusCode
        (selectResponse
           (integrationResponses (integration (hd (methods (extended_constructor properties)))))
           (decimal 404)) = Some ''400''"
  using exactly_one_tier_selected
          [of 404 "clientStack_bucketName properties @ ''/data/background-images/{folder}/{object}''"
              "\<lparr>role_id = ''Role'', assumedBy = ''apigateway.amazonaws.com'', role_path = ''/''\<rparr>"]
  by (simp add: extended_methods)

text \<open>
  Claim C3. In both variants the response parameters of the 400 tier are equal to those of the 500
  tier, and every response parameter of the 500 tier is a response parameter of the 200
  tier: the 400 tier takes the object of the 500 tier as it is and the 200 tier spreads it
  into its own literal.
\<close>

theorem error_tiers_share_parameters:
  "responseParameters simple_createNotFoundResponse
     = responseParameters simple_createServerErrorResponse
   \<and> set (responseParameters simple_createServerErrorResponse)
       \<subseteq> set (responseParameters simple_createOkResponse)
   \<and> responseParameters extended_createNotFoundResponse
     = responseParameters extended_createServerErrorResponse
   \<and> set (responseParameters extended_createServerErrorResponse)
       \<subseteq> set (responseParameters extended_createOkResponse)"
  by (simp add: simple_notFound_parameters extended_notFound_parameters
        simple_error_parameters extended_error_parameters
        simple_ok_parameters extended_ok_parameters)

text \<open>
  Claim C4. For the route of the simple variant and for both routes of the extended variant, two
  different pairs of a user id and a file name, each a valid path segment, are sent to
  different storage paths, provided the bucket name holds no placeholder brace.
\<close>

theorem storage_key_injective:
  assumes "CHR ''{'' \<notin> set (clientStack_bucketName props)"
    and "validSegment u" and "validSegment f"
    and "validSegment u'" and "validSegment f'"
    and "(u, f) \<noteq> (u', f')"
  shows "list_all (\<lambda>m. storagePath (integration m) (uploadRequest u f)
                        \<noteq> storagePath (integration m) (uploadRequest u' f'))
           (methods (simple_constructor props) @ methods (extended_constructor props))"
proof -
  let ?b = "clientStack_bucketName props"
  have ne: "\<not> (u = u' \<and> f = f')" using assms(6) by simp
  have img: "?b @ ''/data/background-images/'' @ u @ ''/'' @ f
             \<noteq> ?b @ ''/data/background-images/'' @ u' @ ''/'' @ f'"
    using segment_pair_inject [OF assms(2) assms(4), of "?b @ ''/data/background-images/''" f f'] ne
    by auto
  have bgm: "?b @ ''/data/bgms/'' @ u @ ''/'' @ f \<noteq> ?b @ ''/data/bgms/'' @ u' @ ''/'' @ f'"
    using segment_pair_inject [OF assms(2) assms(4), of "?b @ ''/data/bgms/''" f f'] ne
    by auto
  have s: "storagePath (simple_createAwsIntegrationToUploadBackgroundImage
              (?b @ ''/data/background-images/{folder}/{object}'') r) (uploadRequest x y)
           = ?b @ ''/data/background-images/'' @ x @ ''/'' @ y" for r x y
    by (rule simple_storagePath [OF assms(1)])
  have e1: "storagePath (extended_createAwsIntegrationToUploadBucket
              (?b @ ''/data/background-images/{folder}/{object}'') r) (uploadRequest x y)
           = ?b @ ''/data/background-images/'' @ x @ ''/'' @ y" for r x y
    using extended_storagePath [OF assms(1), of "''background-images''" r x y] by simp
  have e2: "storagePath (extended_createAwsIntegrationToUploadBucket
              (?b @ ''/data/bgms/{folder}/{object}'') r) (uploadRequest x y)
           = ?b @ ''/data/bgms/'' @ x @ ''/'' @ y" for r x y
    using extended_storagePath [OF assms(1), of "''bgms''" r x y] by simp
  show ?thesis
    unfolding simple_methods extended_methods
    using img bgm by (simp add: s e1 e2)
qed

theorem storage_key_injective_witness:
  "CHR ''{'' \<notin> set (clientStack_bucketName properties)
   \<and> validSegment ''alice'' \<and> validSegment ''cat.png''
   \<and> validSegment ''bob'' \<and> (''alice'', ''cat.png'') \<noteq> (''bob'', ''cat.png'')
   \<and> list_all (\<lambda>m. storagePath (integration m) (uploadRequest ''alice'' ''cat.png'')
                      \<noteq> storagePath (integration m) (uploadRequest ''bob'' ''cat.png''))
        (methods (simple_constructor properties) @ methods (extended_constructor properties))"
proof -
  have b: "CHR ''{'' \<notin> set (clientStack_bucketName properties)"
    by (simp add: properties_def)
  have v: "validSegment ''alice''" "validSegment ''cat.png''" "validSegment ''bob''"
    by (simp_all add: validSegment_def)
  have d: "(''alice'', ''cat.png'') \<noteq> (''bob'', ''cat.png'')" by simp
  show ?thesis
    using b v d storage_key_injective [OF b v(1) v(2) v(3) v(2) d] by simp
qed

text \<open>
  Claim C5, as amended. The PUT routes of the HTTP surface are exactly these: in the
  simple variant the one route PUT \<^verbatim>\<open>/users/{userId}/files/{fileName}\<close>, an integration with
  the storage service whose path is \<^verbatim>\<open>data/background-images/{folder}/{object}\<close> below the
  bucket; in the extended variant the two routes
  PUT \<^verbatim>\<open>/users/{userId}/files/background-images/{fileName}\<close> and
  PUT \<^verbatim>\<open>/users/{userId}/files/bgms/{fileName}\<close>, with the paths
  \<^verbatim>\<open>data/background-images/{folder}/{object}\<close> and \<^verbatim>\<open>data/bgms/{folder}/{object}\<close>. In every
  route the integration binds \<open>folder\<close> to the path parameter \<open>userId\<close> and \<open>object\<close> to the
  path parameter \<open>fileName\<close>. Besides the PUT routes the surface holds the OPTIONS preflight
  methods that \<open>defaultCorsPreflightOptions\<close> puts on the root and on every resource, five
  in the simple variant and eight in the extended one, and nothing else.
\<close>

theorem http_surface_routes:
  "map (\<lambda>m. (httpMethod m, pathTemplate (resourcePath m), service (integration m),
              integrationHttpMethod (integration m), path (integration m)))
       (methods (simple_constructor props))
     = [(''PUT'', ''/users/{userId}/files/{fileName}'', ''s3'', ''PUT'',
         clientStack_bucketName props @ ''/data/background-images/{folder}/{object}'')]
   \<and> map (\<lambda>m. (httpMethod m, pathTemplate (resourcePath m), service (integration m),
              integrationHttpMethod (integration m), path (integration m)))
       (methods (extended_constructor props))
     = [(''PUT'', ''/users/{userId}/files/background-images/{fileName}'', ''s3'', ''PUT'',
         clientStack_bucketName props @ ''/data/background-images/{folder}/{object}''),
        (''PUT'', ''/users/{userId}/files/bgms/{fileName}'', ''s3'', ''PUT'',
         clientStack_bucketName props @ ''/data/bgms/{folder}/{object}'')]
   \<and> map (\<lambda>m. (obj_get (requestParameters (integration m)) ''integration.request.path.folder'',
                obj_get (requestParameters (integration m)) ''integration.request.path.object''))
       (methods (simple_constructor props) @ methods (extended_constructor props))
     = [(Some ''method.request.path.userId'', Some ''method.request.path.fileName''),
        (Some ''method.request.path.userId'', Some ''method.request.path.fileName''),
        (Some ''method.request.path.userId'', Some ''method.request.path.fileName'')]
   \<and> httpSurface (simple_constructor props)
     = [(''PUT'', ''/users/{userId}/files/{fileName}''),
        (''OPTIONS'', ''/''),
        (''OPTIONS'', ''/users''),
        (''OPTIONS'', ''/users/{userId}''),
        (''OPTIONS'', ''/users/{userId}/files''),
        (''OPTIONS'', ''/users/{userId}/files/{fileName}'')]
   \<and> httpSurface (extended_constructor props)
     = [(''PUT'', ''/users/{userId}/files/background-images/{fileName}''),
        (''PUT'', ''/users/{userId}/files/bgms/{fileName}''),
        (''OPTIONS'', ''/''),
        (''OPTIONS'', ''/users''),
        (''OPTIONS'', ''/users/{userId}''),
        (''OPTIONS'', ''/users/{userId}/files''),
        (''OPTIONS'', ''/users/{userId}/files/background-images''),
        (''OPTIONS'', ''/users/{userId}/files/background-images/{fileName}''),
        (''OPTIONS'', ''/users/{userId}/files/bgms''),
        (''OPTIONS'', ''/users/{userId}/files/bgms/{fileName}'')]"
  unfolding simple_methods extended_methods simple_httpSurface extended_httpSurface
  by (simp add: pathTemplate_def integration_path integration_target simple_request_bindings
        extended_request_bindings obj_get_def)

text \<open>
  The claim as first stated, that the surface consists of the PUT routes alone, fails on
  the stack the entry point builds: the surface holds an OPTIONS method as well.
\<close>

theorem http_surface_not_put_only:
  "httpSurface (simple_constructor properties)
     \<noteq> [(''PUT'', ''/users/{userId}/files/{fileName}'')]
   \<and> (''OPTIONS'', ''/users/{userId}/files/{fileName}'')
       \<in> set (httpSurface (simple_constructor properties))
   \<and> httpSurface (extended_constructor properties)
     \<noteq> [(''PUT'', ''/users/{userId}/files/background-images/{fileName}''),
         (''PUT'', ''/users/{userId}/files/bgms/{fileName}'')]
   \<and> (''OPTIONS'', ''/users/{userId}/files/bgms/{fileName}'')
       \<in> set (httpSurface (extended_constructor properties))"
  unfolding simple_httpSurface extended_httpSurface
  by simp

text \<open>
  Claim C6. Every entry of the response table of either variant that carries one of the three CORS
  headers carries all three, with the values \<^verbatim>\<open>'*'\<close>, \<^verbatim>\<open>'OPTIONS,POST,PUT,GET,DELETE'\<close> and
  \<^verbatim>\<open>'Content-Type,Authorization'\<close>; the 400 and the 500 tier of both variants carry the full
  triple.
\<close>

theorem cors_headers_all_or_none:
  "list_all (\<lambda>t. carriesAnyCors t \<longrightarrow> carriesAllCors t)
     (integrationResponses (simple_createAwsIntegrationToUploadBackgroundImage p r)
      @ integrationResponses (extended_createAwsIntegrationToUploadBucket p' r'))
   \<and> carriesAllCors simple_createNotFoundResponse
   \<and> carriesAllCors simple_createServerErrorResponse
   \<and> carriesAllCors extended_createNotFoundResponse
   \<and> carriesAllCors extended_createServerErrorResponse"
  by (simp add: simple_integrationResponses extended_integrationResponses carries_cors)

theorem cors_headers_all_or_none_witness:
  "carriesAnyCors simple_createOkResponse \<and> carriesAllCors simple_createOkResponse"
proof -
  have a: "carriesAnyCors simple_createOkResponse"
    by (simp add: carriesAnyCors_def corsHeaders_def obj_get_def simple_ok_parameters)
  have "carriesAnyCors simple_createOkResponse \<longrightarrow> carriesAllCors simple_createOkResponse"
    using cors_headers_all_or_none [of "[]" "credentialsRole
            (integration (hd (methods (simple_constructor properties))))" "[]"]
    by (simp add: simple_integrationResponses)
  with a show ?thesis by simp
qed

text \<open>
  Claim C7. The method options mark the path parameters \<open>userId\<close> and \<open>fileName\<close> as required in
  both variants. The Content-Type request header is marked required in the extended
  variant and is absent from the simple one; \<open>apiKeyRequired\<close> is true in the extended
  variant and not set in the simple one. Every registered method uses the options of its
  variant.
\<close>

theorem required_request_parameters:
  "map (obj_get (mo_requestParameters simple_createMethodOptions))
       [''method.request.path.userId'', ''method.request.path.fileName'',
        ''method.request.header.Content-Type'']
     = [Some True, Some True, None]
   \<and> apiKeyRequired simple_createMethodOptions = None
   \<and> map (obj_get (mo_requestParameters extended_createMethodOptions))
       [''method.request.path.userId'', ''method.request.path.fileName'',
        ''method.request.header.Content-Type'']
     = [Some True, Some True, Some True]
   \<and> apiKeyRequired extended_createMethodOptions = Some True
   \<and> map methodOptions (methods (simple_constructor props)) = [simple_createMethodOptions]
   \<and> map methodOptions (methods (extended_constructor props))
     = [extended_createMethodOptions, extended_createMethodOptions]"
  unfolding simple_methods extended_methods
  by (simp add: simple_createMethodOptions_eq extended_createMethodOptions_eq obj_get_def)

text \<open>
  Claim C8. In both variants the status codes of the method responses are exactly 200, 400 and 500,
  the same set as the status codes of the integration's response table; the 200 method
  response declares Timestamp, Content-Length, Content-Type and the three CORS headers,
  the 400 and 500 method responses declare the three CORS headers only.
\<close>

theorem method_responses_mirror_tiers:
  "set (map mr_statusCode (methodResponses simple_createMethodOptions))
     = {''200'', ''400'', ''500''}
   \<and> set (map mr_statusCode (methodResponses simple_createMethodOptions))
     = set (map statusCode
         (integrationResponses (simple_createAwsIntegrationToUploadBackgroundImage p r)))
   \<and> map (\<lambda>m. (mr_statusCode m, mr_responseParameters m))
       (methodResponses simple_createMethodOptions)
     = [(''200'', [(''method.response.header.Timestamp'', True),
                   (''method.response.header.Content-Length'', True),
                   (''method.response.header.Content-Type'', True),
                   (''method.response.header.Access-Control-Allow-Headers'', True),
                   (''method.response.header.Access-Control-Allow-Methods'', True),
                   (''method.response.header.Access-Control-Allow-Origin'', True)]),
        (''400'', [(''method.response.header.Access-Control-Allow-Headers'', True),
                   (''method.response.header.Access-Control-Allow-Methods'', True),
                   (''method.response.header.Access-Control-Allow-Origin'', True)]),
        (''500'', [(''method.response.header.Access-Control-Allow-Headers'', True),
                   (''method.response.header.Access-Control-Allow-Methods'', True),
                   (''method.response.header.Access-Control-Allow-Origin'', True)])]
   \<and> set (map mr_statusCode (methodResponses extended_createMethodOptions))
     = {''200'', ''400'', ''500''}
   \<and> set (map mr_statusCode (methodResponses extended_createMethodOptions))
     = set (map statusCode
         (integrationResponses (extended_createAwsIntegrationToUploadBucket p r)))
   \<and> map (\<lambda>m. (mr_statusCode m, mr_responseParameters m))
       (methodResponses extended_createMethodOptions)
     = [(''200'', [(''method.response.header.Timestamp'', True),
                   (''method.response.header.Content-Length'', True),
                   (''method.response.header.Content-Type'', True),
                   (''method.response.header.Access-Control-Allow-Headers'', True),
                   (''method.response.header.Access-Control-Allow-Methods'', True),
                   (''method.response.header.Access-Control-Allow-Origin'', True)]),
        (''400'', [(''method.response.header.Access-Control-Allow-Headers'', True),
                   (''method.response.header.Access-Control-Allow-Methods'', True),
                   (''method.response.header.Access-Control-Allow-Origin'', True)]),
        (''500'', [(''method.response.header.Access-Control-Allow-Headers'', True),
                   (''method.response.header.Access-Control-Allow-Methods'', True),
                   (''method.response.header.Access-Control-Allow-Origin'', True)])]"
  by (simp add: simple_createMethodOptions_eq extended_createMethodOptions_eq
        simple_integrationResponses extended_integrationResponses
        simple_tier_codes extended_tier_codes)

text \<open>
  Claim C9. The extended constructor creates exactly one usage plan, with a quota of 30 per day, a
  burst limit of 2 and a rate limit of 1, holding the one API key \<open>defaultKeys\<close> and the
  deployment stage of the REST API; that key is the only API key of the stack and its
  identifier is the only output. The simple constructor creates no usage plan, no API key
  and no output.
\<close>

theorem rate_limit_only_extended:
  "usagePlans (extended_constructor props)
     = [\<lparr>usagePlan_id = apiStack_restApiGatewayName props @ ''-usage-plan'',
         quota_limit = 30, quota_period = DAY,
         throttle_burstLimit = 2, throttle_rateLimit = 1,
         plan_apiKeys = [''defaultKeys''],
         plan_apiStages = [(apiStack_restApiGatewayName props, ''v1'')]\<rparr>]
   \<and> apiKeys (extended_constructor props) = [''defaultKeys'']
   \<and> outputs (extended_constructor props) = [(''APIKey'', KeyIdOf ''defaultKeys'')]
   \<and> usagePlans (simple_constructor props) = []
   \<and> apiKeys (simple_constructor props) = []
   \<and> outputs (simple_constructor props) = []"
  by (simp add: extended_constructor_def extended_createRestAPIRole_def
        extended_createRestAPIGateway_def extended_createUsagePlan_def
        simple_constructor_def simple_createRestAPIRole_def
        simple_createRestAPIGateway_def constructor_defs)

text \<open>
  Claim C10. The three response entries of the simple variant are equal to the three of the extended
  variant, field by field, and so are the response tables of any two integrations the
  variants build.
\<close>

theorem variants_same_response_table:
  "simple_createOkResponse = extended_createOkResponse
   \<and> simple_createNotFoundResponse = extended_createNotFoundResponse
   \<and> simple_createServerErrorResponse = extended_createServerErrorResponse
   \<and> integrationResponses (simple_createAwsIntegrationToUploadBackgroundImage p r)
     = integrationResponses (extended_createAwsIntegrationToUploadBucket p' r')"
  by (simp add: simple_integrationResponses extended_integrationResponses
        simple_createOkResponse_def extended_createOkResponse_def
        simple_createNotFoundResponse_def extended_createNotFoundResponse_def
        simple_createServerErrorResponse_def extended_createServerErrorResponse_def)

end
